theory Spec2Isabelle
  imports Complex_Main
begin

section \<open>Data model\<close>

text \<open>
  The types of \<^verbatim>\<open>backend/src/types/index.ts\<close> and of the Mongoose models. A JavaScript
  \<^verbatim>\<open>number\<close> is a \<^typ>\<open>real\<close>: the code only compares and negates prices and
  percentages, which is exact on finite doubles. Times are milliseconds, as \<^verbatim>\<open>Date.now()\<close>
  gives them. An optional field (\<^verbatim>\<open>targetPrice?: number\<close>) is an \<^typ>\<open>'a option\<close>, with
  \<^term>\<open>None\<close> for \<^verbatim>\<open>undefined\<close>.
\<close>

record CryptoPriceData =
  symbol :: string
  current_price :: real
  price_change_percentage_24h :: real
  market_cap :: real
  total_volume :: real

datatype condition = Cond_above | Cond_below | Cond_percent_increase | Cond_percent_decrease

record Alert =
  alert_id :: nat
  userId :: string
  alert_symbol :: string
  condition :: condition
  targetPrice :: "real option"
  percentageChange :: "real option"
  isActive :: bool
  createdAt :: int

text \<open>The argument of \<^verbatim>\<open>updateAlert\<close>, a \<^verbatim>\<open>Partial<AlertDocument>\<close>: a field that is
  \<^term>\<open>None\<close> is left as it is.\<close>

record AlertUpdate =
  u_symbol :: "string option"
  u_condition :: "condition option"
  u_targetPrice :: "real option"
  u_percentageChange :: "real option"
  u_isActive :: "bool option"

record User =
  email :: string
  firstName :: string
  emailNotifications :: bool

record PriceHistory =
  h_symbol :: string
  h_price :: real
  h_timestamp :: int
  h_volume_24h :: real
  h_market_cap :: real

record CacheData =
  data :: "CryptoPriceData list"
  timestamp :: int
  ttl :: int

section \<open>The world the services act on\<close>

text \<open>
  The services are module-level singletons that share Redis, MongoDB, the Socket.IO server,
  the mail transport and the clock. One record holds all of it; every service function
  takes the world and returns the new one. What the outside decides is part of the world
  too: \<open>upstream\<close> gives CoinGecko's answer to the \<open>n\<close>-th request the client has
  issued, and \<open>fails\<close> says which collaborator calls throw. An answer is the data of a
  2xx response, a 429 with its \<^verbatim>\<open>retry-after\<close> header when it has one (in either form
  HTTP gives it: a number of seconds, or a date), or any other failure (another status, a
  network error, the 10 second timeout). \<open>logged\<close> holds
  what the logger has written at error and warning level. The clock moves only where the
  code waits.
\<close>

datatype request = Get string string nat

datatype retry_after = DelaySeconds nat | HttpDate

datatype response =
    Ok "CryptoPriceData list"
  | RateLimited "retry_after option"
  | Failure

datatype event =
    PriceUpdate "CryptoPriceData list"
  | SymbolPriceUpdate string CryptoPriceData
  | AlertTriggered Alert real real

datatype op = AlertFind | UserFindById | AlertFindOneAndUpdate | HistoryInsertMany
  | SendMail | SocketEmit

datatype error = Error string | AxiosError | MongoError | SmtpError | SocketError

record world =
  now :: int
  isConnected :: bool
  redis :: "string \<Rightarrow> CacheData option"
  lastRequestTime :: int
  requestCount :: nat
  upstream :: "nat \<Rightarrow> request \<Rightarrow> response"
  io :: bool
  emitted :: "event list"
  alerts :: "Alert list"
  users :: "string \<Rightarrow> User option"
  history :: "PriceHistory list"
  outbox :: "(string \<times> string \<times> Alert \<times> real) list"
  fails :: "op \<Rightarrow> bool"
  logged :: "string list"

definition logger_error :: "string \<Rightarrow> world \<Rightarrow> world" where
  "logger_error msg w = w\<lparr>logged := logged w @ [msg]\<rparr>"

section \<open>Configuration (utils/config.ts)\<close>

definition supportedCoins :: "string list" where
  "supportedCoins = [''bitcoin'', ''ethereum'', ''binancecoin'', ''cardano'', ''solana'',
     ''polkadot'', ''dogecoin'', ''avalanche-2'', ''polygon'', ''chainlink'']"

definition cacheDefaultTtl :: int where
  "cacheDefaultTtl = 60000"

definition rateLimit :: int where
  "rateLimit = 30"

section \<open>Strings\<close>

text \<open>\<^verbatim>\<open>Array.prototype.join(',')\<close> and \<^verbatim>\<open>String.prototype.toUpperCase\<close> (on ASCII
  letters; other characters are left as they are).\<close>

fun join :: "string list \<Rightarrow> string" where
  "join [] = []"
| "join [x] = x"
| "join (x # y # ys) = x @ '','' @ join (y # ys)"

definition upper_char :: "char \<Rightarrow> char" where
  "upper_char c =
     (case map_of (zip ''abcdefghijklmnopqrstuvwxyz'' ''ABCDEFGHIJKLMNOPQRSTUVWXYZ'') c of
        None \<Rightarrow> c
      | Some u \<Rightarrow> u)"

definition toUpperCase :: "string \<Rightarrow> string" where
  "toUpperCase s = map upper_char s"

section \<open>Alert evaluation (services/alertService.ts)\<close>

datatype direction = Increase | Decrease

definition checkPercentageChange :: "Alert \<Rightarrow> CryptoPriceData \<Rightarrow> direction \<Rightarrow> bool" where
  "checkPercentageChange alert priceData dir =
     (case percentageChange alert of
        None \<Rightarrow> False
      | Some pc \<Rightarrow>
          (let change24h = price_change_percentage_24h priceData in
           if dir = Increase then change24h \<ge> pc else change24h \<le> - pc))"

definition evaluateAlert :: "Alert \<Rightarrow> CryptoPriceData \<Rightarrow> bool" where
  "evaluateAlert alert priceData =
     (let currentPrice = current_price priceData in
      case condition alert of
        Cond_above \<Rightarrow> targetPrice alert \<noteq> None \<and> currentPrice > the (targetPrice alert)
      | Cond_below \<Rightarrow> targetPrice alert \<noteq> None \<and> currentPrice < the (targetPrice alert)
      | Cond_percent_increase \<Rightarrow> checkPercentageChange alert priceData Increase
      | Cond_percent_decrease \<Rightarrow> checkPercentageChange alert priceData Decrease)"

text \<open>The reference definition of the trigger decision, written from the specification's
  condition semantics: a threshold that is unset never triggers.\<close>

definition evaluate_reference :: "Alert \<Rightarrow> CryptoPriceData \<Rightarrow> bool" where
  "evaluate_reference rule snapshot =
     (case condition rule of
        Cond_above \<Rightarrow>
          (case targetPrice rule of None \<Rightarrow> False | Some t \<Rightarrow> current_price snapshot > t)
      | Cond_below \<Rightarrow>
          (case targetPrice rule of None \<Rightarrow> False | Some t \<Rightarrow> current_price snapshot < t)
      | Cond_percent_increase \<Rightarrow>
          (case percentageChange rule of None \<Rightarrow> False
           | Some pc \<Rightarrow> price_change_percentage_24h snapshot \<ge> pc)
      | Cond_percent_decrease \<Rightarrow>
          (case percentageChange rule of None \<Rightarrow> False
           | Some pc \<Rightarrow> price_change_percentage_24h snapshot \<le> - pc))"

section \<open>Cache layer (services/cacheService.ts)\<close>

text \<open>
  Redis is a map from keys to the stored \<^verbatim>\<open>CacheData\<close> (the JSON round trip is the
  identity). Every method starts with \<^verbatim>\<open>if (!this.isConnected) return\<close> and catches what
  the Redis client throws, answering as the disconnected branch does, so a method never
  raises. The server-side expiry that \<^verbatim>\<open>setEx\<close> asks for is not modelled: an entry stays
  until it is deleted or overwritten.
\<close>

definition cache_delete :: "string \<Rightarrow> world \<Rightarrow> world" where
  "cache_delete key w =
     (if \<not> isConnected w then w else w\<lparr>redis := (redis w)(key := None)\<rparr>)"

definition cache_get :: "string \<Rightarrow> world \<Rightarrow> CryptoPriceData list option \<times> world" where
  "cache_get key w =
     (if \<not> isConnected w then (None, w)
      else case redis w key of
        None \<Rightarrow> (None, w)
      | Some parsed \<Rightarrow>
          if now w - timestamp parsed > ttl parsed then (None, cache_delete key w)
          else (Some (data parsed), w))"

definition cache_set :: "string \<Rightarrow> CryptoPriceData list \<Rightarrow> int option \<Rightarrow> world \<Rightarrow> world" where
  "cache_set key val ttlSeconds w =
     (if \<not> isConnected w then w
      else w\<lparr>redis := (redis w)(key \<mapsto>
        \<lparr>data = val, timestamp = now w,
         ttl = (case ttlSeconds of
                  None \<Rightarrow> cacheDefaultTtl
                | Some s \<Rightarrow> if s = 0 then cacheDefaultTtl else s * 1000)\<rparr>)\<rparr>)"

section \<open>Upstream price client (services/coinGeckoService.ts)\<close>

definition REQUEST_INTERVAL :: int where
  "REQUEST_INTERVAL = 60000 div rateLimit"

text \<open>
  Both waits of the client are \<^verbatim>\<open>await new Promise(resolve => setTimeout(resolve, d))\<close>.
  Node's timer runs a delay that is not a number between 1 and \<open>2^31 - 1\<close> milliseconds as a
  delay of 1 millisecond; the argument is \<^term>\<open>None\<close> where the JavaScript value is
  \<^verbatim>\<open>NaN\<close>. A wait moves the clock forward by the delay the timer runs.
\<close>

definition TIMEOUT_MAX :: int where
  "TIMEOUT_MAX = 2147483647"

definition setTimeout_delay :: "int option \<Rightarrow> int" where
  "setTimeout_delay d =
     (case d of
        None \<Rightarrow> 1
      | Some ms \<Rightarrow> if 1 \<le> ms \<and> ms \<le> TIMEOUT_MAX then ms else 1)"

text \<open>The request interceptor: pace the request, then stamp and count it.\<close>

definition request_interceptor :: "world \<Rightarrow> world" where
  "request_interceptor w =
     (let timeSinceLastRequest = now w - lastRequestTime w;
          w1 = (if timeSinceLastRequest < REQUEST_INTERVAL
                then w\<lparr>now := now w
                       + setTimeout_delay (Some (REQUEST_INTERVAL - timeSinceLastRequest))\<rparr>
                else w)
      in w1\<lparr>lastRequestTime := now w1, requestCount := requestCount w1 + 1\<rparr>)"

text \<open>\<^verbatim>\<open>(error.response.headers['retry-after'] || 60) * 1000\<close>: the header is a string
  when it is there; a number of seconds is coerced to that number, a date to \<^verbatim>\<open>NaN\<close>.
  \<open>retry_wait\<close> is the time the timer then runs.\<close>

definition retry_after_ms :: "retry_after option \<Rightarrow> int option" where
  "retry_after_ms header =
     (case header of
        None \<Rightarrow> Some (60 * 1000)
      | Some (DelaySeconds s) \<Rightarrow> Some (int s * 1000)
      | Some HttpDate \<Rightarrow> None)"

definition retry_wait :: "retry_after option \<Rightarrow> int" where
  "retry_wait header = setTimeout_delay (retry_after_ms header)"

text \<open>
  \<^verbatim>\<open>this.api.request(config)\<close> with both interceptors. The response interceptor logs every
  error; on status 429 it waits and calls \<^verbatim>\<open>this.api.request(error.config)\<close>, which runs
  through the same interceptors again, so the function calls itself. An upstream that
  answers 429 for ever keeps it from returning: the result is then \<^term>\<open>None\<close>.
\<close>

partial_function (option) api_request ::
  "request \<Rightarrow> world \<Rightarrow> ((error + CryptoPriceData list) \<times> world) option" where
  "api_request config w =
     (let w1 = request_interceptor w in
      case upstream w (requestCount w) config of
        Ok d \<Rightarrow> Some (Inr d, w1)
      | RateLimited retryAfter \<Rightarrow>
          (let w2 = logger_error ''Rate limited'' (logger_error ''CoinGecko API Error'' w1)
           in api_request config (w2\<lparr>now := now w2 + retry_wait retryAfter\<rparr>))
      | Failure \<Rightarrow> Some (Inl AxiosError, logger_error ''CoinGecko API Error'' w1))"

definition coins_of :: "string list option \<Rightarrow> string list" where
  "coins_of coinIds = (case coinIds of None \<Rightarrow> supportedCoins | Some cs \<Rightarrow> cs)"

definition cacheKey :: "string list option \<Rightarrow> string" where
  "cacheKey coinIds = ''prices:'' @ join (coins_of coinIds)"

definition markets_request :: "string list option \<Rightarrow> request" where
  "markets_request coinIds =
     Get ''/coins/markets'' (join (coins_of coinIds)) (length (coins_of coinIds))"

text \<open>\<^verbatim>\<open>getCurrentPrices\<close>: the \<^verbatim>\<open>try\<close> block, and the \<^verbatim>\<open>catch\<close> block that reads the
  cache once more with the same \<^verbatim>\<open>get\<close>.\<close>

definition getCurrentPrices ::
  "string list option \<Rightarrow> world \<Rightarrow> ((error + CryptoPriceData list) \<times> world) option" where
  "getCurrentPrices coinIds w =
     (case cache_get (cacheKey coinIds) w of
        (Some cachedData, w1) \<Rightarrow> Some (Inr cachedData, w1)
      | (None, w1) \<Rightarrow>
          (case api_request (markets_request coinIds) w1 of
             None \<Rightarrow> None
           | Some (Inr priceData, w2) \<Rightarrow>
               Some (Inr priceData, cache_set (cacheKey coinIds) priceData (Some 30) w2)
           | Some (Inl e, w2) \<Rightarrow>
               (let w3 = logger_error ''Failed to fetch current prices'' w2 in
                case cache_get (cacheKey coinIds) w3 of
                  (Some fallbackData, w4) \<Rightarrow>
                    Some (Inr fallbackData,
                          logger_error ''Returning stale cached data due to API error'' w4)
                | (None, w4) \<Rightarrow>
                    Some (Inl (Error ''Failed to fetch cryptocurrency prices''), w4))))"

section \<open>Notification fan-out (services/socketService.ts, services/emailService.ts)\<close>

text \<open>
  An emit appends to the list of emitted events; \<open>io\<close> is false while the Socket.IO
  server is not initialised, and then both functions return at once. A function that can
  throw returns \<^term>\<open>Inl\<close> of the error together with the world as it is at the throw:
  what was emitted, sent or stored before stays.
\<close>

definition symbol_events :: "CryptoPriceData list \<Rightarrow> event list" where
  "symbol_events priceData =
     map (\<lambda>d. SymbolPriceUpdate (''symbol:'' @ toUpperCase (symbol d)) d) priceData"

definition broadcastPriceUpdate :: "CryptoPriceData list \<Rightarrow> world \<Rightarrow> (error + unit) \<times> world" where
  "broadcastPriceUpdate priceData w =
     (if \<not> io w then (Inr (), w)
      else if fails w SocketEmit then (Inl SocketError, w)
      else (Inr (), w\<lparr>emitted := emitted w @ PriceUpdate priceData # symbol_events priceData\<rparr>))"

definition sendAlert :: "Alert \<Rightarrow> real \<Rightarrow> real \<Rightarrow> world \<Rightarrow> (error + unit) \<times> world" where
  "sendAlert alert currentPrice priceChange24h w =
     (if \<not> io w then (Inr (), w)
      else if fails w SocketEmit then (Inl SocketError, w)
      else (Inr (), w\<lparr>emitted := emitted w @ [AlertTriggered alert currentPrice priceChange24h]\<rparr>))"

text \<open>\<^verbatim>\<open>sendAlertEmail\<close> logs a transport error and throws it again.\<close>

definition sendAlertEmail ::
  "string \<Rightarrow> string \<Rightarrow> Alert \<Rightarrow> real \<Rightarrow> world \<Rightarrow> (error + unit) \<times> world" where
  "sendAlertEmail address name alert currentPrice w =
     (if fails w SendMail then (Inl SmtpError, logger_error ''Error sending alert email'' w)
      else (Inr (), w\<lparr>outbox := outbox w @ [(address, name, alert, currentPrice)]\<rparr>))"

section \<open>Alert store and trigger path (services/alertService.ts)\<close>

definition User_findById :: "string \<Rightarrow> world \<Rightarrow> (error + User option) \<times> world" where
  "User_findById uid w =
     (if fails w UserFindById then (Inl MongoError, w) else (Inr (users w uid), w))"

definition apply_update :: "AlertUpdate \<Rightarrow> Alert \<Rightarrow> Alert" where
  "apply_update u a =
     a\<lparr>alert_symbol := (case u_symbol u of None \<Rightarrow> alert_symbol a | Some v \<Rightarrow> v),
       condition := (case u_condition u of None \<Rightarrow> condition a | Some v \<Rightarrow> v),
       targetPrice := (case u_targetPrice u of None \<Rightarrow> targetPrice a | Some v \<Rightarrow> Some v),
       percentageChange :=
         (case u_percentageChange u of None \<Rightarrow> percentageChange a | Some v \<Rightarrow> Some v),
       isActive := (case u_isActive u of None \<Rightarrow> isActive a | Some v \<Rightarrow> v)\<rparr>"

definition no_update :: AlertUpdate where
  "no_update = \<lparr>u_symbol = None, u_condition = None, u_targetPrice = None,
     u_percentageChange = None, u_isActive = None\<rparr>"

text \<open>\<^verbatim>\<open>findOneAndUpdate\<close> changes the first document that matches the query.\<close>

fun replace_first :: "('a \<Rightarrow> bool) \<Rightarrow> ('a \<Rightarrow> 'a) \<Rightarrow> 'a list \<Rightarrow> 'a list" where
  "replace_first P f [] = []"
| "replace_first P f (x # xs) = (if P x then f x # xs else x # replace_first P f xs)"

text \<open>The query of \<^verbatim>\<open>updateAlert\<close>: the id, and the user when one is given
  (\<^verbatim>\<open>if (userId)\<close> is false on the empty string too).\<close>

definition update_query :: "nat \<Rightarrow> string option \<Rightarrow> Alert \<Rightarrow> bool" where
  "update_query alertId uid a =
     (alert_id a = alertId \<and>
      (case uid of None \<Rightarrow> True | Some u \<Rightarrow> u = [] \<or> userId a = u))"

definition updateAlert ::
  "nat \<Rightarrow> AlertUpdate \<Rightarrow> string option \<Rightarrow> world \<Rightarrow> (error + Alert option) \<times> world" where
  "updateAlert alertId updateData uid w =
     (if fails w AlertFindOneAndUpdate
      then (Inl (Error ''Failed to update alert''), logger_error ''Failed to update alert'' w)
      else case List.find (update_query alertId uid) (alerts w) of
        None \<Rightarrow> (Inr None, w)
      | Some a \<Rightarrow>
          (Inr (Some (apply_update updateData a)),
           w\<lparr>alerts := replace_first (update_query alertId uid) (apply_update updateData)
                (alerts w)\<rparr>))"

text \<open>\<^verbatim>\<open>getUserAlerts\<close>: the user's active alerts, newest first; the user defaults to
  \<^verbatim>\<open>'default'\<close>.\<close>

definition getUserAlerts :: "string option \<Rightarrow> world \<Rightarrow> (error + Alert list) \<times> world" where
  "getUserAlerts uid w =
     (let u = (case uid of None \<Rightarrow> ''default'' | Some v \<Rightarrow> v) in
      if fails w AlertFind
      then (Inl (Error ''Failed to fetch alerts''), logger_error ''Failed to fetch user alerts'' w)
      else (Inr (sort_key (\<lambda>a. - createdAt a)
                  (filter (\<lambda>a. userId a = u \<and> isActive a) (alerts w))), w))"

text \<open>The body of the \<^verbatim>\<open>try\<close> block of \<^verbatim>\<open>triggerAlert\<close>, statement by statement: the
  first statement that throws ends it.\<close>

definition triggerAlert_try :: "Alert \<Rightarrow> CryptoPriceData \<Rightarrow> world \<Rightarrow> (error + unit) \<times> world" where
  "triggerAlert_try alert priceData w =
     (case User_findById (userId alert) w of
        (Inl e, w1) \<Rightarrow> (Inl e, w1)
      | (Inr user, w1) \<Rightarrow>
     (case sendAlert alert (current_price priceData)
             (price_change_percentage_24h priceData) w1 of
        (Inl e, w2) \<Rightarrow> (Inl e, w2)
      | (Inr _, w2) \<Rightarrow>
     (case (case user of
              None \<Rightarrow> (Inr (), w2)
            | Some u \<Rightarrow>
                if emailNotifications u
                then sendAlertEmail (email u) (firstName u) alert (current_price priceData) w2
                else (Inr (), w2)) of
        (Inl e, w3) \<Rightarrow> (Inl e, w3)
      | (Inr _, w3) \<Rightarrow>
     (case updateAlert (alert_id alert) (no_update\<lparr>u_isActive := Some False\<rparr>) None w3 of
        (Inl e, w4) \<Rightarrow> (Inl e, w4)
      | (Inr _, w4) \<Rightarrow> (Inr (), w4)))))"

definition triggerAlert :: "Alert \<Rightarrow> CryptoPriceData \<Rightarrow> world \<Rightarrow> world" where
  "triggerAlert alert priceData w =
     (case triggerAlert_try alert priceData w of
        (Inl e, w') \<Rightarrow> logger_error ''Failed to trigger alert'' w'
      | (Inr _, w') \<Rightarrow> w')"

definition find_price :: "Alert \<Rightarrow> CryptoPriceData list \<Rightarrow> CryptoPriceData option" where
  "find_price alert priceData =
     List.find (\<lambda>d. toUpperCase (symbol d) = toUpperCase (alert_symbol alert)) priceData"

text \<open>The body of the \<^verbatim>\<open>for\<close> loop of \<^verbatim>\<open>checkAlerts\<close> for one alert, and the loop over
  the alerts that the query \<^verbatim>\<open>Alert.find({ isActive: true })\<close> returned (the loop keeps
  the list it has read, whatever the trigger path writes to the store; the
  \<^verbatim>\<open>populate\<close> of the query plays no part in what follows).\<close>

definition checkAlerts_body :: "Alert \<Rightarrow> CryptoPriceData list \<Rightarrow> world \<Rightarrow> world" where
  "checkAlerts_body alert priceData w =
     (case find_price alert priceData of
        None \<Rightarrow> w
      | Some currentPrice \<Rightarrow>
          if evaluateAlert alert currentPrice then triggerAlert alert currentPrice w else w)"

fun checkAlerts_loop :: "Alert list \<Rightarrow> CryptoPriceData list \<Rightarrow> world \<Rightarrow> world" where
  "checkAlerts_loop [] priceData w = w"
| "checkAlerts_loop (alert # rest) priceData w =
     checkAlerts_loop rest priceData (checkAlerts_body alert priceData w)"

definition checkAlerts :: "CryptoPriceData list \<Rightarrow> world \<Rightarrow> world" where
  "checkAlerts priceData w =
     (if fails w AlertFind then logger_error ''Failed to check alerts'' w
      else checkAlerts_loop (filter isActive (alerts w)) priceData w)"

section \<open>Ingestion scheduler (app.ts)\<close>

definition storePriceHistory :: "CryptoPriceData list \<Rightarrow> world \<Rightarrow> world" where
  "storePriceHistory prices w =
     (if fails w HistoryInsertMany then logger_error ''Error storing price history'' w
      else w\<lparr>history := history w @
             map (\<lambda>price. \<lparr>h_symbol = toUpperCase (symbol price), h_price = current_price price,
                    h_timestamp = now w, h_volume_24h = total_volume price,
                    h_market_cap = market_cap price\<rparr>) prices\<rparr>)"

text \<open>The \<^verbatim>\<open>try\<close> block of the ten-second job, and the job with its \<^verbatim>\<open>catch\<close>.\<close>

definition tick_try :: "world \<Rightarrow> ((error + unit) \<times> world) option" where
  "tick_try w =
     (case getCurrentPrices None w of
        None \<Rightarrow> None
      | Some (Inl e, w1) \<Rightarrow> Some (Inl e, w1)
      | Some (Inr prices, w1) \<Rightarrow>
          (case broadcastPriceUpdate prices w1 of
             (Inl e, w2) \<Rightarrow> Some (Inl e, w2)
           | (Inr _, w2) \<Rightarrow>
               (let w3 = checkAlerts prices w2 in
                if (now w3 div 1000) mod 60 = 0
                then Some (Inr (), storePriceHistory prices w3)
                else Some (Inr (), w3))))"

definition tick :: "world \<Rightarrow> ((error + unit) \<times> world) option" where
  "tick w =
     (case tick_try w of
        None \<Rightarrow> None
      | Some (Inl e, w') \<Rightarrow> Some (Inr (), logger_error ''Error in price update cron job'' w')
      | Some (Inr u, w') \<Rightarrow> Some (Inr u, w'))"




section \<open>Notions used in the statements\<close>





text \<open>What the trigger path's \<^verbatim>\<open>updateAlert(id, { isActive: false })\<close> does to the store.\<close>

definition deactivate :: "nat \<Rightarrow> Alert list \<Rightarrow> Alert list" where
  "deactivate i xs = replace_first (\<lambda>b. alert_id b = i) (\<lambda>b. b\<lparr>isActive := False\<rparr>) xs"

text \<open>The \<^verbatim>\<open>alert-triggered\<close> events and the alert emails of the rule with a given id.\<close>

fun is_alert_event_for :: "nat \<Rightarrow> event \<Rightarrow> bool" where
  "is_alert_event_for i (AlertTriggered a x y) = (alert_id a = i)"
| "is_alert_event_for i (PriceUpdate ds) = False"
| "is_alert_event_for i (SymbolPriceUpdate room d) = False"

definition firings :: "nat \<Rightarrow> world \<Rightarrow> event list" where
  "firings i w = filter (is_alert_event_for i) (emitted w)"

definition mails_for :: "nat \<Rightarrow> world \<Rightarrow> (string \<times> string \<times> Alert \<times> real) list" where
  "mails_for i w = filter (\<lambda>m. alert_id (fst (snd (snd m))) = i) (outbox w)"

section \<open>Scenarios\<close>

text \<open>Concrete worlds on which the properties below are evaluated: a Bitcoin snapshot at
  61000 USD, a world with nothing stored and an upstream that is down, and the same world
  with a cache entry for \<^verbatim>\<open>['bitcoin']\<close> written at time 0 with a TTL of 30 seconds.
  The clock stands at 100 seconds, or at 20 seconds while the entry is still fresh.\<close>

definition btc_snapshot :: CryptoPriceData where
  "btc_snapshot = \<lparr>symbol = ''btc'', current_price = 61000, price_change_percentage_24h = 2,
     market_cap = 1200000000000, total_volume = 30000000000\<rparr>"

definition quiet_world :: world where
  "quiet_world = \<lparr>now = 100000, isConnected = True, redis = Map.empty, lastRequestTime = 0,
     requestCount = 0, upstream = (\<lambda>n config. Failure), io = True, emitted = [],
     alerts = [], users = Map.empty, history = [], outbox = [], fails = (\<lambda>x. False),
     logged = []\<rparr>"

definition btc_entry :: CacheData where
  "btc_entry = \<lparr>data = [btc_snapshot], timestamp = 0, ttl = 30000\<rparr>"

definition stale_world :: world where
  "stale_world = quiet_world\<lparr>redis := [cacheKey (Some [''bitcoin'']) \<mapsto> btc_entry]\<rparr>"

definition fresh_world :: world where
  "fresh_world = stale_world\<lparr>now := 20000\<rparr>"

text \<open>A cache that holds, at 20 seconds, the entry written at time 0 by a call for
  \<^verbatim>\<open>['bitcoin', 'ethereum']\<close>, with an upstream that serves both snapshots.\<close>

definition eth_snapshot :: CryptoPriceData where
  "eth_snapshot = \<lparr>symbol = ''eth'', current_price = 3000, price_change_percentage_24h = - 1,
     market_cap = 360000000000, total_volume = 15000000000\<rparr>"

definition pair_entry :: CacheData where
  "pair_entry = \<lparr>data = [btc_snapshot, eth_snapshot], timestamp = 0, ttl = 30000\<rparr>"

definition pair_cached_world :: world where
  "pair_cached_world = quiet_world\<lparr>now := 20000,
     redis := [cacheKey (Some [''bitcoin'', ''ethereum'']) \<mapsto> pair_entry],
     upstream := (\<lambda>n config. Ok [btc_snapshot, eth_snapshot])\<rparr>"

text \<open>A store with two rules of user \<^verbatim>\<open>u1\<close>: an active one on Bitcoin above 60000 and an
  inactive one on Ethereum; the user takes email notifications. In \<open>mail_down_world\<close> the
  mail transport throws.\<close>

definition btc_rule :: Alert where
  "btc_rule = \<lparr>alert_id = 1, userId = ''u1'', alert_symbol = ''BTC'', condition = Cond_above,
     targetPrice = Some 60000, percentageChange = None, isActive = True, createdAt = 1000\<rparr>"

definition eth_rule :: Alert where
  "eth_rule = \<lparr>alert_id = 2, userId = ''u1'', alert_symbol = ''ETH'', condition = Cond_below,
     targetPrice = Some 1000, percentageChange = None, isActive = False, createdAt = 2000\<rparr>"

definition alice :: User where
  "alice = \<lparr>email = ''alice@example.org'', firstName = ''Alice'', emailNotifications = True\<rparr>"

definition alert_world :: world where
  "alert_world = quiet_world\<lparr>alerts := [btc_rule, eth_rule], users := [''u1'' \<mapsto> alice]\<rparr>"

definition mail_down_world :: world where
  "mail_down_world = alert_world\<lparr>fails := (\<lambda>x. x = SendMail)\<rparr>"

text \<open>In \<open>store_down_world\<close> it is the store update \<^verbatim>\<open>Alert.findOneAndUpdate\<close> that
  throws.\<close>

definition store_down_world :: world where
  "store_down_world = alert_world\<lparr>fails := (\<lambda>x. x = AlertFindOneAndUpdate)\<rparr>"

text \<open>The store after the rule on Bitcoin has been deactivated.\<close>

definition spent_world :: world where
  "spent_world = alert_world\<lparr>alerts := [btc_rule\<lparr>isActive := False\<rparr>, eth_rule]\<rparr>"


definition serving_world :: world where
  "serving_world = alert_world\<lparr>upstream := (\<lambda>n config. Ok [btc_snapshot]),
     fails := (\<lambda>x. x = AlertFind)\<rparr>"



section \<open>Alert evaluation: properties\<close>

text \<open>
  C2. For every alert rule and every price snapshot, \<^verbatim>\<open>evaluateAlert\<close> returns exactly
  the reference decision: for \<^verbatim>\<open>above\<close>, true iff the current price is greater than the
  target price; for \<^verbatim>\<open>below\<close>, true iff it is smaller; for \<^verbatim>\<open>percent_increase\<close>, true
  iff the 24h percentage change is at least the rule's percentage; for
  \<^verbatim>\<open>percent_decrease\<close>, true iff it is at most the negated percentage. When the
  threshold field the condition needs is unset, the result is false; the function is total
  and raises nothing.
\<close>

theorem evaluateAlert_is_reference:
  "evaluateAlert rule snapshot = evaluate_reference rule snapshot
   \<and> evaluateAlert (rule\<lparr>condition := Cond_above, targetPrice := None\<rparr>) snapshot = False
   \<and> evaluateAlert (rule\<lparr>condition := Cond_below, targetPrice := None\<rparr>) snapshot = False
   \<and> evaluateAlert (rule\<lparr>condition := Cond_percent_increase, percentageChange := None\<rparr>)
        snapshot = False
   \<and> evaluateAlert (rule\<lparr>condition := Cond_percent_decrease, percentageChange := None\<rparr>)
        snapshot = False"
  by (auto simp: evaluateAlert_def evaluate_reference_def checkPercentageChange_def
      split: condition.splits option.splits)

section \<open>Cache layer and upstream client: properties\<close>

lemma cache_get_hit:
  "isConnected w \<Longrightarrow> redis w key = Some entry \<Longrightarrow> now w - timestamp entry \<le> ttl entry
   \<Longrightarrow> cache_get key w = (Some (data entry), w)"
  by (simp add: cache_get_def)

lemma cache_get_Some_same:
  "cache_get key w = (Some d, w') \<Longrightarrow> w' = w"
  by (auto simp: cache_get_def split: if_splits option.splits)

text \<open>
  C7, as the code has it. For every symbol list that has a fresh entry under its own cache
  key, which is the key of the list as it is given (the cache is connected and the entry's
  age does not exceed its TTL), \<^verbatim>\<open>getCurrentPrices\<close> returns the cached value and leaves
  the world as it is: no request is issued and the request counter is unchanged. Whenever
  a call has changed the request counter, its first read of that key was a miss.
\<close>

theorem getCurrentPrices_network_only_on_miss:
  "(isConnected w \<and> redis w (cacheKey coinIds) = Some entry
      \<and> now w - timestamp entry \<le> ttl entry
      \<longrightarrow> getCurrentPrices coinIds w = Some (Inr (data entry), w))
   \<and> (\<forall>r w'. getCurrentPrices coinIds w = Some (r, w') \<and> requestCount w' \<noteq> requestCount w
      \<longrightarrow> fst (cache_get (cacheKey coinIds) w) = None)"
proof (intro conjI allI impI)
  assume "isConnected w \<and> redis w (cacheKey coinIds) = Some entry
    \<and> now w - timestamp entry \<le> ttl entry"
  then show "getCurrentPrices coinIds w = Some (Inr (data entry), w)"
    using cache_get_hit [of w "cacheKey coinIds" entry] by (simp add: getCurrentPrices_def)
next
  fix r w'
  assume a: "getCurrentPrices coinIds w = Some (r, w') \<and> requestCount w' \<noteq> requestCount w"
  show "fst (cache_get (cacheKey coinIds) w) = None"
  proof (cases "cache_get (cacheKey coinIds) w")
    case (Pair c w1)
    show ?thesis
    proof (cases c)
      case None
      with Pair show ?thesis by simp
    next
      case (Some d)
      with Pair have "w1 = w" by (simp add: cache_get_Some_same)
      with Pair Some a show ?thesis by (auto simp: getCurrentPrices_def)
    qed
  qed
qed

theorem getCurrentPrices_network_only_on_miss_witness:
  "isConnected fresh_world
   \<and> redis fresh_world (cacheKey (Some [''bitcoin''])) = Some btc_entry
   \<and> now fresh_world - timestamp btc_entry \<le> ttl btc_entry
   \<and> getCurrentPrices (Some [''bitcoin'']) fresh_world = Some (Inr [btc_snapshot], fresh_world)
   \<and> requestCount fresh_world = 0"
  using getCurrentPrices_network_only_on_miss [of fresh_world "Some [''bitcoin'']" btc_entry]
  by (simp add: fresh_world_def stale_world_def quiet_world_def btc_entry_def)

text \<open>The claim as written (no request for a symbol set that has a fresh entry) fails
  where the fresh entry of the set was stored under another order of its symbols: the
  call for \<^verbatim>\<open>['ethereum', 'bitcoin']\<close> does not find the fresh entry of
  \<^verbatim>\<open>['bitcoin', 'ethereum']\<close> and issues a request.\<close>

theorem fresh_set_other_order_counterexample:
  "set [''ethereum'', ''bitcoin''] = set [''bitcoin'', ''ethereum'']
   \<and> isConnected pair_cached_world
   \<and> redis pair_cached_world (cacheKey (Some [''bitcoin'', ''ethereum''])) = Some pair_entry
   \<and> now pair_cached_world - timestamp pair_entry \<le> ttl pair_entry
   \<and> requestCount pair_cached_world = 0
   \<and> map_option fst (getCurrentPrices (Some [''ethereum'', ''bitcoin'']) pair_cached_world)
       = Some (Inr [btc_snapshot, eth_snapshot])
   \<and> map_option (requestCount \<circ> snd)
         (getCurrentPrices (Some [''ethereum'', ''bitcoin'']) pair_cached_world) = Some 1"
proof -
  have miss: "cache_get (cacheKey (Some [''ethereum'', ''bitcoin''])) pair_cached_world
      = (None, pair_cached_world)"
    by (simp add: cache_get_def pair_cached_world_def quiet_world_def cacheKey_def coins_of_def)
  have "upstream pair_cached_world (requestCount pair_cached_world)
      (markets_request (Some [''ethereum'', ''bitcoin''])) = Ok [btc_snapshot, eth_snapshot]"
    by (simp add: pair_cached_world_def)
  then have "api_request (markets_request (Some [''ethereum'', ''bitcoin''])) pair_cached_world
      = Some (Inr [btc_snapshot, eth_snapshot], request_interceptor pair_cached_world)"
    by (subst api_request.simps) (simp add: Let_def)
  with miss
  have g: "getCurrentPrices (Some [''ethereum'', ''bitcoin'']) pair_cached_world
      = Some (Inr [btc_snapshot, eth_snapshot],
          cache_set (cacheKey (Some [''ethereum'', ''bitcoin''])) [btc_snapshot, eth_snapshot]
            (Some 30) (request_interceptor pair_cached_world))"
    by (simp add: getCurrentPrices_def)
  have counted: "requestCount (cache_set (cacheKey (Some [''ethereum'', ''bitcoin'']))
      [btc_snapshot, eth_snapshot] (Some 30) (request_interceptor pair_cached_world))
      = requestCount pair_cached_world + 1"
    by (simp add: cache_set_def request_interceptor_def Let_def)
  have h: "isConnected pair_cached_world"
    "redis pair_cached_world (cacheKey (Some [''bitcoin'', ''ethereum''])) = Some pair_entry"
    "now pair_cached_world - timestamp pair_entry \<le> ttl pair_entry"
    "requestCount pair_cached_world = 0"
    by (simp_all add: pair_cached_world_def quiet_world_def pair_entry_def)
  have "set [''ethereum'', ''bitcoin''] = set [''bitcoin'', ''ethereum'']"
    by auto
  with h show ?thesis
    unfolding g using counted by simp
qed

text \<open>
  C1. The claim: when the upstream fetch fails and a stale entry exists for the key,
  \<^verbatim>\<open>getCurrentPrices\<close> returns the stale payload. The code reads the fallback with the
  same \<^verbatim>\<open>get\<close> that refuses expired entries. Evaluated on the world with the expired
  Bitcoin entry and the upstream down: the first read finds the entry expired, deletes it
  and returns nothing; the request fails; the call raises
  \<^verbatim>\<open>Failed to fetch cryptocurrency prices\<close>.
\<close>

theorem stale_entry_is_not_served:
  "redis stale_world (cacheKey (Some [''bitcoin''])) = Some btc_entry
   \<and> now stale_world - timestamp btc_entry > ttl btc_entry
   \<and> cache_get (cacheKey (Some [''bitcoin''])) stale_world
     = (None, stale_world\<lparr>redis := Map.empty\<rparr>)
   \<and> map_option fst (getCurrentPrices (Some [''bitcoin'']) stale_world)
     = Some (Inl (Error ''Failed to fetch cryptocurrency prices''))"
  by (simp add: stale_world_def quiet_world_def btc_entry_def cache_get_def cache_delete_def
      getCurrentPrices_def api_request.simps markets_request_def coins_of_def
      request_interceptor_def logger_error_def cacheKey_def Let_def)

lemma comma_split:
  "CHR '','' \<notin> set x \<Longrightarrow> CHR '','' \<notin> set y \<Longrightarrow> x @ CHR '','' # a = y @ CHR '','' # b
   \<Longrightarrow> x = y \<and> a = b"
proof (induction x arbitrary: y)
  case Nil
  then show ?case by (cases y) auto
next
  case (Cons c x)
  then show ?case by (cases y) auto
qed

lemma join_inj:
  "\<forall>c \<in> set xs \<union> set ys. CHR '','' \<notin> set c \<Longrightarrow> xs \<noteq> [] \<Longrightarrow> ys \<noteq> []
   \<Longrightarrow> join xs = join ys \<Longrightarrow> xs = ys"
proof (induction xs arbitrary: ys rule: join.induct)
  case 1
  then show ?case by simp
next
  case (2 x)
  then show ?case
    by (cases ys rule: join.cases) auto
next
  case (3 x y zs)
  show ?case
  proof (cases ys rule: join.cases)
    case 1
    with 3 show ?thesis by simp
  next
    case (2 u)
    with 3 show ?thesis by auto
  next
    case (3 u v vs)
    from "3.prems" 3 have "x = u \<and> join (y # zs) = join (v # vs)"
      using comma_split [of x u "join (y # zs)" "join (v # vs)"] by simp
    moreover from this "3.IH" [of "v # vs"] "3.prems" 3 have "y # zs = v # vs" by simp
    ultimately show ?thesis using 3 by simp
  qed
qed

text \<open>
  C6, as the code has it. \<^verbatim>\<open>getCurrentPrices\<close> computes its cache key from the list of
  ids as it is given: \<^verbatim>\<open>prices:\<close> followed by the ids joined with commas, in the order
  of the call and with its duplicates. For non-empty lists of ids that contain no comma,
  two calls use the same key exactly when they give the same list.
\<close>

theorem cacheKey_keeps_order_and_duplicates:
  assumes "\<forall>c \<in> set xs \<union> set ys. CHR '','' \<notin> set c" and "xs \<noteq> []" and "ys \<noteq> []"
  shows "cacheKey (Some xs) = ''prices:'' @ join xs
    \<and> (cacheKey (Some xs) = cacheKey (Some ys)) = (xs = ys)"
  using join_inj [OF assms] by (auto simp: cacheKey_def coins_of_def)

theorem cacheKey_keeps_order_and_duplicates_witness:
  "CHR '','' \<notin> set ''bitcoin'' \<and> CHR '','' \<notin> set ''ethereum''
   \<and> cacheKey (Some [''bitcoin'', ''ethereum'']) = ''prices:bitcoin,ethereum''
   \<and> cacheKey (Some [''bitcoin'', ''ethereum'']) \<noteq> cacheKey (Some [''ethereum'', ''bitcoin''])"
  using cacheKey_keeps_order_and_duplicates
    [of "[''bitcoin'', ''ethereum'']" "[''ethereum'', ''bitcoin'']"]
  by auto

text \<open>The claim as written (the key comes from the sorted, deduplicated set, so order and
  duplicates do not matter) fails: the same two ids in the other order, and one id given
  twice, lead to other keys.\<close>

theorem cacheKey_order_counterexample:
  "cacheKey (Some [''ethereum'', ''bitcoin'']) \<noteq> cacheKey (Some [''bitcoin'', ''ethereum''])
   \<and> cacheKey (Some [''bitcoin'', ''bitcoin'']) \<noteq> cacheKey (Some [''bitcoin''])"
  by (simp add: cacheKey_def coins_of_def)

section \<open>Alert store: properties\<close>

lemma replace_first_find:
  "List.find P xs = Some a \<Longrightarrow> f a \<in> set (replace_first P f xs)"
  by (induction xs) (auto split: if_splits)

text \<open>
  C10. \<^verbatim>\<open>getUserAlerts\<close> returns exactly the user's rules whose active flag is true and
  leaves the store as it is. A rule that \<^verbatim>\<open>updateAlert\<close> has deactivated (as the trigger
  path does, or the user) is still in the store and is not in the result.
\<close>

theorem getUserAlerts_only_active:
  "(\<forall>as w'. getUserAlerts uid w = (Inr as, w') \<longrightarrow>
      set as = {a \<in> set (alerts w).
                  userId a = (case uid of None \<Rightarrow> ''default'' | Some v \<Rightarrow> v) \<and> isActive a}
      \<and> alerts w' = alerts w)
   \<and> (\<forall>i q a' w1 as w2.
        updateAlert i (no_update\<lparr>u_isActive := Some False\<rparr>) q w = (Inr (Some a'), w1)
        \<and> getUserAlerts uid w1 = (Inr as, w2)
        \<longrightarrow> a' \<in> set (alerts w1) \<and> a' \<notin> set as)"
proof (intro conjI allI impI)
  fix as w'
  assume "getUserAlerts uid w = (Inr as, w')"
  then show "set as = {a \<in> set (alerts w).
      userId a = (case uid of None \<Rightarrow> ''default'' | Some v \<Rightarrow> v) \<and> isActive a}"
    by (auto simp: getUserAlerts_def Let_def split: if_splits)
next
  fix as w'
  assume "getUserAlerts uid w = (Inr as, w')"
  then show "alerts w' = alerts w"
    by (auto simp: getUserAlerts_def Let_def split: if_splits)
next
  fix i q a' w1 as w2
  assume a: "updateAlert i (no_update\<lparr>u_isActive := Some False\<rparr>) q w = (Inr (Some a'), w1)
        \<and> getUserAlerts uid w1 = (Inr as, w2)"
  then show "a' \<in> set (alerts w1)"
    by (auto simp: updateAlert_def replace_first_find split: if_splits option.splits)
next
  fix i q a' w1 as w2
  assume a: "updateAlert i (no_update\<lparr>u_isActive := Some False\<rparr>) q w = (Inr (Some a'), w1)
        \<and> getUserAlerts uid w1 = (Inr as, w2)"
  then have "\<not> isActive a'"
    by (auto simp: updateAlert_def apply_update_def no_update_def split: if_splits option.splits)
  with a show "a' \<notin> set as"
    by (auto simp: getUserAlerts_def Let_def split: if_splits)
qed

theorem getUserAlerts_only_active_witness:
  "getUserAlerts (Some ''u1'') alert_world = (Inr [btc_rule], alert_world)
   \<and> updateAlert 1 (no_update\<lparr>u_isActive := Some False\<rparr>) None alert_world
     = (Inr (Some (btc_rule\<lparr>isActive := False\<rparr>)), spent_world)
   \<and> getUserAlerts (Some ''u1'') spent_world = (Inr [], spent_world)
   \<and> btc_rule\<lparr>isActive := False\<rparr> \<in> set (alerts spent_world)
   \<and> btc_rule\<lparr>isActive := False\<rparr> \<notin> set []"
proof -
  have e1: "getUserAlerts (Some ''u1'') alert_world = (Inr [btc_rule], alert_world)"
    by (simp add: Let_def getUserAlerts_def alert_world_def quiet_world_def btc_rule_def eth_rule_def)
  have e2: "updateAlert 1 (no_update\<lparr>u_isActive := Some False\<rparr>) None alert_world
     = (Inr (Some (btc_rule\<lparr>isActive := False\<rparr>)), spent_world)"
    by (simp add: updateAlert_def update_query_def apply_update_def no_update_def
        spent_world_def alert_world_def quiet_world_def btc_rule_def eth_rule_def)
  have e3: "getUserAlerts (Some ''u1'') spent_world = (Inr [], spent_world)"
    by (simp add: Let_def getUserAlerts_def spent_world_def alert_world_def quiet_world_def
        btc_rule_def eth_rule_def)
  from getUserAlerts_only_active [of "Some ''u1''" alert_world] e2 e3
  have "btc_rule\<lparr>isActive := False\<rparr> \<in> set (alerts spent_world)
    \<and> btc_rule\<lparr>isActive := False\<rparr> \<notin> set []"
    by blast
  with e1 e2 e3 show ?thesis by blast
qed

section \<open>Rate limiting: properties\<close>


lemma request_interceptor_fields:
  "upstream (request_interceptor w) = upstream w"
  "requestCount (request_interceptor w) = requestCount w + 1"
  "lastRequestTime (request_interceptor w) = now (request_interceptor w)"
  "io (request_interceptor w) = io w"
  "emitted (request_interceptor w) = emitted w"
  "alerts (request_interceptor w) = alerts w"
  "users (request_interceptor w) = users w"
  "history (request_interceptor w) = history w"
  "outbox (request_interceptor w) = outbox w"
  "fails (request_interceptor w) = fails w"
  "isConnected (request_interceptor w) = isConnected w"
  "redis (request_interceptor w) = redis w"
  "logged (request_interceptor w) = logged w"
  by (simp_all add: request_interceptor_def Let_def)




lemma api_request_Ok:
  "upstream w (requestCount w) config = Ok d
   \<Longrightarrow> api_request config w = Some (Inr d, request_interceptor w)"
  by (subst api_request.simps) (simp add: Let_def)



lemma api_request_frame:
  assumes "api_request config w = Some y"
  shows "upstream (snd y) = upstream w \<and> io (snd y) = io w \<and> emitted (snd y) = emitted w
    \<and> alerts (snd y) = alerts w \<and> users (snd y) = users w \<and> history (snd y) = history w
    \<and> outbox (snd y) = outbox w \<and> fails (snd y) = fails w
    \<and> isConnected (snd y) = isConnected w \<and> redis (snd y) = redis w"
  apply (induct rule: api_request.raw_induct [OF _ assms])
  apply (auto simp: Let_def request_interceptor_fields logger_error_def split: response.splits)
  done





section \<open>Scheduler tick: properties\<close>


lemma cache_get_fields:
  "upstream (snd (cache_get key w)) = upstream w"
  "requestCount (snd (cache_get key w)) = requestCount w"
  "io (snd (cache_get key w)) = io w"
  "emitted (snd (cache_get key w)) = emitted w"
  "fails (snd (cache_get key w)) = fails w"
  "alerts (snd (cache_get key w)) = alerts w"
  by (simp_all add: cache_get_def cache_delete_def split: option.splits)

lemma cache_set_fields:
  "io (cache_set key v t w) = io w"
  "emitted (cache_set key v t w) = emitted w"
  "fails (cache_set key v t w) = fails w"
  "alerts (cache_set key v t w) = alerts w"
  "upstream (cache_set key v t w) = upstream w"
  "now (cache_set key v t w) = now w"
  "logged (cache_set key v t w) = logged w"
  by (simp_all add: cache_set_def)


lemma getCurrentPrices_frame:
  assumes "getCurrentPrices coinIds w = Some (r, w')"
  shows "io w' = io w \<and> emitted w' = emitted w \<and> fails w' = fails w \<and> alerts w' = alerts w"
proof (cases "cache_get (cacheKey coinIds) w")
  case (Pair c w1)
  have f1: "io w1 = io w" "emitted w1 = emitted w" "fails w1 = fails w" "alerts w1 = alerts w"
    using Pair cache_get_fields(3-6) [of "cacheKey coinIds" w] by simp_all
  show ?thesis
  proof (cases c)
    case (Some d)
    with Pair assms have "w' = w1" by (simp add: getCurrentPrices_def)
    with f1 show ?thesis by simp
  next
    case None
    with Pair assms obtain y where y: "api_request (markets_request coinIds) w1 = Some y"
      by (auto simp: getCurrentPrices_def split: option.splits)
    obtain res w2 where yy: "y = (res, w2)" by (cases y)
    from api_request_frame [OF y] f1 yy
    have f2: "io w2 = io w" "emitted w2 = emitted w" "fails w2 = fails w" "alerts w2 = alerts w"
      by simp_all
    show ?thesis
    proof (cases res)
      case (Inr priceData)
      with Pair None y yy assms
      have "w' = cache_set (cacheKey coinIds) priceData (Some 30) w2"
        by (simp add: getCurrentPrices_def)
      with f2 show ?thesis by (simp add: cache_set_fields)
    next
      case (Inl e)
      let ?w3 = "logger_error ''Failed to fetch current prices'' w2"
      obtain fb w4 where c4: "cache_get (cacheKey coinIds) ?w3 = (fb, w4)"
        by (cases "cache_get (cacheKey coinIds) ?w3")
      have f4: "io w4 = io w" "emitted w4 = emitted w" "fails w4 = fails w"
        "alerts w4 = alerts w"
        using c4 cache_get_fields(3-6) [of "cacheKey coinIds" ?w3] f2
        by (simp_all add: logger_error_def)
      from Pair None y yy Inl assms c4
      have "w' = w4 \<or> w' = logger_error ''Returning stale cached data due to API error'' w4"
        by (cases fb) (simp_all add: getCurrentPrices_def Let_def)
      with f4 show ?thesis by (auto simp: logger_error_def)
    qed
  qed
qed


section \<open>Trigger path and one-shot firing: properties\<close>

lemma find_None_replace_first:
  "List.find P xs = None \<Longrightarrow> replace_first P f xs = xs"
  by (induction xs) (auto split: if_splits)

lemma updateAlert_deactivate:
  "\<not> fails w AlertFindOneAndUpdate \<Longrightarrow>
   updateAlert i (no_update\<lparr>u_isActive := Some False\<rparr>) None w
     = (Inr (map_option (\<lambda>b. b\<lparr>isActive := False\<rparr>)
               (List.find (\<lambda>b. alert_id b = i) (alerts w))),
        w\<lparr>alerts := deactivate i (alerts w)\<rparr>)"
proof -
  assume nf: "\<not> fails w AlertFindOneAndUpdate"
  have q: "update_query i None = (\<lambda>b. alert_id b = i)"
    by (simp add: update_query_def fun_eq_iff)
  have u: "apply_update (no_update\<lparr>u_isActive := Some False\<rparr>) = (\<lambda>b. b\<lparr>isActive := False\<rparr>)"
    by (simp add: apply_update_def no_update_def fun_eq_iff)
  show ?thesis
  proof (cases "List.find (\<lambda>b. alert_id b = i) (alerts w)")
    case None
    with nf show ?thesis
      by (simp add: updateAlert_def q u deactivate_def find_None_replace_first)
  next
    case (Some a)
    with nf show ?thesis
      by (simp add: updateAlert_def q u deactivate_def)
  qed
qed

lemma updateAlert_fails:
  "fails w AlertFindOneAndUpdate \<Longrightarrow>
   updateAlert i u q w
     = (Inl (Error ''Failed to update alert''), logger_error ''Failed to update alert'' w)"
  by (simp add: updateAlert_def)

lemma triggerAlert_effect:
  "fails (triggerAlert a p w) = fails w \<and> users (triggerAlert a p w) = users w
   \<and> io (triggerAlert a p w) = io w
   \<and> (alerts (triggerAlert a p w) = alerts w
        \<or> alerts (triggerAlert a p w) = deactivate (alert_id a) (alerts w))
   \<and> (emitted (triggerAlert a p w) = emitted w
        \<or> emitted (triggerAlert a p w)
            = emitted w @ [AlertTriggered a (current_price p) (price_change_percentage_24h p)])
   \<and> (outbox (triggerAlert a p w) = outbox w
        \<or> (\<exists>e n. outbox (triggerAlert a p w) = outbox w @ [(e, n, a, current_price p)]))"
proof (cases "fails w AlertFindOneAndUpdate")
  case True
  then show ?thesis
    by (auto simp: triggerAlert_def triggerAlert_try_def User_findById_def sendAlert_def
        sendAlertEmail_def logger_error_def updateAlert_fails split: option.splits)
next
  case False
  then show ?thesis
    by (auto simp: triggerAlert_def triggerAlert_try_def User_findById_def sendAlert_def
        sendAlertEmail_def logger_error_def updateAlert_deactivate split: option.splits)
qed

text \<open>A trigger path in which no statement before the store update throws, and the
  update does not throw either, ends with the rule deactivated.\<close>

lemma triggerAlert_no_failure:
  "\<not> fails w UserFindById \<Longrightarrow> io w \<longrightarrow> \<not> fails w SocketEmit
   \<Longrightarrow> (\<exists>u. users w (userId a) = Some u \<and> emailNotifications u) \<longrightarrow> \<not> fails w SendMail
   \<Longrightarrow> \<not> fails w AlertFindOneAndUpdate
   \<Longrightarrow> alerts (triggerAlert a p w) = deactivate (alert_id a) (alerts w)"
  by (auto simp: triggerAlert_def triggerAlert_try_def User_findById_def sendAlert_def
      sendAlertEmail_def logger_error_def updateAlert_deactivate split: option.splits)

lemma deactivate_ids:
  "map alert_id (deactivate i xs) = map alert_id xs"
  by (induction xs) (simp_all add: deactivate_def)

lemma deactivate_mem:
  "b' \<in> set (deactivate i xs) \<Longrightarrow> b' \<in> set xs \<or> (\<exists>b\<in>set xs. b' = b\<lparr>isActive := False\<rparr>)"
  by (induction xs) (auto simp: deactivate_def split: if_splits)

lemma deactivate_keeps_inactive:
  assumes "\<forall>b\<in>set xs. alert_id b = j \<longrightarrow> \<not> isActive b"
  shows "\<forall>b\<in>set (deactivate i xs). alert_id b = j \<longrightarrow> \<not> isActive b"
proof (intro ballI impI)
  fix b'
  assume "b' \<in> set (deactivate i xs)" and "alert_id b' = j"
  with deactivate_mem [of b' i xs] assms show "\<not> isActive b'" by auto
qed

lemma deactivate_hits:
  "distinct (map alert_id xs) \<Longrightarrow> i \<in> alert_id ` set xs
   \<Longrightarrow> \<forall>b\<in>set (deactivate i xs). alert_id b = i \<longrightarrow> \<not> isActive b"
proof (induction xs)
  case Nil
  then show ?case by simp
next
  case (Cons x xs)
  show ?case
  proof (cases "alert_id x = i")
    case True
    with Cons.prems(1) have "i \<notin> alert_id ` set xs" by simp
    then have "\<forall>b\<in>set xs. alert_id b \<noteq> i" by blast
    with True show ?thesis by (auto simp: deactivate_def)
  next
    case False
    with Cons have "\<forall>b\<in>set (deactivate i xs). alert_id b = i \<longrightarrow> \<not> isActive b" by auto
    with False show ?thesis by (auto simp: deactivate_def)
  qed
qed

lemma checkAlerts_body_cases:
  "checkAlerts_body a pd w = w
   \<or> (\<exists>p. find_price a pd = Some p \<and> evaluateAlert a p
          \<and> checkAlerts_body a pd w = triggerAlert a p w)"
  by (auto simp: checkAlerts_body_def split: option.splits)

lemma checkAlerts_body_frame:
  "fails (checkAlerts_body a pd w) = fails w \<and> io (checkAlerts_body a pd w) = io w
   \<and> users (checkAlerts_body a pd w) = users w
   \<and> map alert_id (alerts (checkAlerts_body a pd w)) = map alert_id (alerts w)"
proof -
  consider (same) "checkAlerts_body a pd w = w"
    | (fired) p where "checkAlerts_body a pd w = triggerAlert a p w"
    using checkAlerts_body_cases [of a pd w] by blast
  then show ?thesis
  proof cases
    case same
    then show ?thesis by simp
  next
    case fired
    with triggerAlert_effect [of a p w] show ?thesis by (auto simp: deactivate_ids)
  qed
qed

lemma checkAlerts_body_keeps_inactive:
  assumes "\<forall>b\<in>set (alerts w). alert_id b = j \<longrightarrow> \<not> isActive b"
  shows "\<forall>b\<in>set (alerts (checkAlerts_body a pd w)). alert_id b = j \<longrightarrow> \<not> isActive b"
proof -
  consider (same) "checkAlerts_body a pd w = w"
    | (fired) p where "checkAlerts_body a pd w = triggerAlert a p w"
    using checkAlerts_body_cases [of a pd w] by blast
  then show ?thesis
  proof cases
    case same
    with assms show ?thesis by simp
  next
    case fired
    from triggerAlert_effect [of a p w]
    have "alerts (triggerAlert a p w) = alerts w
      \<or> alerts (triggerAlert a p w) = deactivate (alert_id a) (alerts w)" by blast
    with fired assms deactivate_keeps_inactive [OF assms, of "alert_id a"]
    show ?thesis by auto
  qed
qed

lemma checkAlerts_body_other:
  assumes "alert_id a \<noteq> j"
  shows "firings j (checkAlerts_body a pd w) = firings j w
    \<and> mails_for j (checkAlerts_body a pd w) = mails_for j w"
proof -
  consider (same) "checkAlerts_body a pd w = w"
    | (fired) p where "checkAlerts_body a pd w = triggerAlert a p w"
    using checkAlerts_body_cases [of a pd w] by blast
  then show ?thesis
  proof cases
    case same
    then show ?thesis by simp
  next
    case fired
    with triggerAlert_effect [of a p w] assms show ?thesis
      by (auto simp: firings_def mails_for_def)
  qed
qed

lemma checkAlerts_body_emitted:
  "\<exists>rest. emitted (checkAlerts_body a pd w) = emitted w @ rest
     \<and> (\<forall>e\<in>set rest. \<exists>b x y. e = AlertTriggered b x y)"
proof -
  consider (same) "checkAlerts_body a pd w = w"
    | (fired) p where "checkAlerts_body a pd w = triggerAlert a p w"
    using checkAlerts_body_cases [of a pd w] by blast
  then show ?thesis
  proof cases
    case same
    then show ?thesis by simp
  next
    case fired
    from triggerAlert_effect [of a p w]
    have "emitted (triggerAlert a p w) = emitted w @ []
      \<or> emitted (triggerAlert a p w)
          = emitted w @ [AlertTriggered a (current_price p) (price_change_percentage_24h p)]"
      by simp
    then show ?thesis
    proof
      assume "emitted (triggerAlert a p w) = emitted w @ []"
      with fired show ?thesis by simp
    next
      assume "emitted (triggerAlert a p w)
          = emitted w @ [AlertTriggered a (current_price p) (price_change_percentage_24h p)]"
      with fired show ?thesis by simp
    qed
  qed
qed


lemma checkAlerts_loop_keeps_inactive:
  "\<forall>b\<in>set (alerts w). alert_id b = j \<longrightarrow> \<not> isActive b
   \<Longrightarrow> \<forall>b\<in>set (alerts (checkAlerts_loop as pd w)). alert_id b = j \<longrightarrow> \<not> isActive b"
proof (induction as arbitrary: w)
  case Nil
  then show ?case by simp
next
  case (Cons a as)
  from Cons.IH [OF checkAlerts_body_keeps_inactive [OF Cons.prems]]
  show ?case by simp
qed

lemma checkAlerts_loop_other:
  "\<forall>a\<in>set as. alert_id a \<noteq> j
   \<Longrightarrow> firings j (checkAlerts_loop as pd w) = firings j w
     \<and> mails_for j (checkAlerts_loop as pd w) = mails_for j w"
proof (induction as arbitrary: w)
  case Nil
  then show ?case by simp
next
  case (Cons a as)
  then have "alert_id a \<noteq> j" and rest: "\<forall>a\<in>set as. alert_id a \<noteq> j" by simp_all
  from Cons.IH [OF rest, of "checkAlerts_body a pd w"]
    checkAlerts_body_other [OF \<open>alert_id a \<noteq> j\<close>, of pd w]
  show ?case by simp
qed

lemma checkAlerts_loop_emitted:
  "\<exists>rest. emitted (checkAlerts_loop as pd w) = emitted w @ rest
     \<and> (\<forall>e\<in>set rest. \<exists>b x y. e = AlertTriggered b x y)"
proof (induction as arbitrary: w)
  case Nil
  then show ?case by simp
next
  case (Cons a as)
  obtain r1 where r1: "emitted (checkAlerts_body a pd w) = emitted w @ r1"
    "\<forall>e\<in>set r1. \<exists>b x y. e = AlertTriggered b x y"
    using checkAlerts_body_emitted [of a pd w] by blast
  obtain r2 where r2: "emitted (checkAlerts_loop as pd (checkAlerts_body a pd w))
      = emitted (checkAlerts_body a pd w) @ r2"
    "\<forall>e\<in>set r2. \<exists>b x y. e = AlertTriggered b x y"
    using Cons [of "checkAlerts_body a pd w"] by blast
  from r1 r2 have "emitted (checkAlerts_loop (a # as) pd w) = emitted w @ (r1 @ r2)"
    and "\<forall>e\<in>set (r1 @ r2). \<exists>b x y. e = AlertTriggered b x y"
    by auto
  then show ?case by blast
qed

lemma checkAlerts_loop_deactivates:
  assumes nf: "\<not> fails w UserFindById" "io w \<longrightarrow> \<not> fails w SocketEmit"
      "(\<exists>u. users w (userId a) = Some u \<and> emailNotifications u) \<longrightarrow> \<not> fails w SendMail"
      "\<not> fails w AlertFindOneAndUpdate"
    and d: "distinct (map alert_id (alerts w))"
    and mem: "a \<in> set as" "alert_id a \<in> alert_id ` set (alerts w)"
    and fire: "find_price a pd = Some p" "evaluateAlert a p"
  shows "\<forall>b\<in>set (alerts (checkAlerts_loop as pd w)). alert_id b = alert_id a \<longrightarrow> \<not> isActive b"
  using nf d mem
proof (induction as arbitrary: w)
  case Nil
  then show ?case by simp
next
  case (Cons x as)
  let ?v = "checkAlerts_body x pd w"
  have fr: "fails ?v = fails w" "map alert_id (alerts ?v) = map alert_id (alerts w)"
    "io ?v = io w" "users ?v = users w"
    using checkAlerts_body_frame [of x pd w] by simp_all
  show ?case
  proof (cases "x = a")
    case True
    have "?v = triggerAlert a p w"
      using True fire by (simp add: checkAlerts_body_def)
    with triggerAlert_no_failure [OF Cons.prems(1-4), where p = p]
    have "alerts ?v = deactivate (alert_id a) (alerts w)" by simp
    with deactivate_hits [OF Cons.prems(5) Cons.prems(7)]
    have "\<forall>b\<in>set (alerts ?v). alert_id b = alert_id a \<longrightarrow> \<not> isActive b" by simp
    from checkAlerts_loop_keeps_inactive [OF this] show ?thesis by simp
  next
    case False
    with Cons.prems(6) have "a \<in> set as" by simp
    moreover have "alert_id a \<in> alert_id ` set (alerts ?v)"
      using Cons.prems(7) fr(2) by (metis list.set_map)
    moreover have "distinct (map alert_id (alerts ?v))"
      using Cons.prems(5) fr(2) by simp
    ultimately show ?thesis
      using Cons.IH [of ?v] Cons.prems(1-4) fr(1,3,4) by simp
  qed
qed

lemma checkAlerts_emitted:
  "\<exists>rest. emitted (checkAlerts pd w) = emitted w @ rest
     \<and> (\<forall>e\<in>set rest. \<exists>b x y. e = AlertTriggered b x y)"
proof (cases "fails w AlertFind")
  case True
  then have "emitted (checkAlerts pd w) = emitted w @ []"
    by (simp add: checkAlerts_def logger_error_def)
  then show ?thesis by (metis empty_iff list.set(1))
next
  case False
  with checkAlerts_loop_emitted [of "filter isActive (alerts w)" pd w]
  show ?thesis by (simp add: checkAlerts_def)
qed

text \<open>
  C3, as the code has it. The store update that sets the active flag to false is the last
  statement of the trigger path, and an update that throws is caught and logged. When a
  rule fires on a tick, its trigger path reaches that update (the user lookup does not
  throw, nor the push when the Socket.IO server is up, nor the email when the owner takes
  email notifications) and the update succeeds, the rule's active flag is false in the
  store after the tick. A rule that is inactive at the start of a tick is not among the
  rules the tick selects: whatever the prices and whichever calls fail, the tick emits no
  \<^verbatim>\<open>alert-triggered\<close> event and sends no email for it, and leaves it inactive; so it
  does not fire again while it is inactive.
\<close>

theorem checkAlerts_one_shot:
  assumes "distinct (map alert_id (alerts w))" and "rule \<in> set (alerts w)" and "isActive rule"
    and "find_price rule priceData = Some p" and "evaluateAlert rule p"
    and "\<not> fails w AlertFind" and "\<not> fails w UserFindById"
    and "io w \<longrightarrow> \<not> fails w SocketEmit"
    and "(\<exists>u. users w (userId rule) = Some u \<and> emailNotifications u) \<longrightarrow> \<not> fails w SendMail"
    and "\<not> fails w AlertFindOneAndUpdate"
  shows "(\<forall>b\<in>set (alerts (checkAlerts priceData w)).
            alert_id b = alert_id rule \<longrightarrow> \<not> isActive b)
    \<and> (\<forall>v pd. (\<forall>b\<in>set (alerts v). alert_id b = alert_id rule \<longrightarrow> \<not> isActive b) \<longrightarrow>
          firings (alert_id rule) (checkAlerts pd v) = firings (alert_id rule) v
          \<and> mails_for (alert_id rule) (checkAlerts pd v) = mails_for (alert_id rule) v
          \<and> (\<forall>b\<in>set (alerts (checkAlerts pd v)).
                alert_id b = alert_id rule \<longrightarrow> \<not> isActive b))"
proof (intro conjI allI impI)
  have "rule \<in> set (filter isActive (alerts w))"
    using assms(2,3) by simp
  moreover have "alert_id rule \<in> alert_id ` set (alerts w)"
    using assms(2) by simp
  ultimately
  have "\<forall>b\<in>set (alerts (checkAlerts_loop (filter isActive (alerts w)) priceData w)).
      alert_id b = alert_id rule \<longrightarrow> \<not> isActive b"
    using checkAlerts_loop_deactivates [OF assms(7-10) assms(1) _ _ assms(4,5)] by blast
  with assms(6)
  show "\<forall>b\<in>set (alerts (checkAlerts priceData w)). alert_id b = alert_id rule \<longrightarrow> \<not> isActive b"
    by (simp add: checkAlerts_def)
next
  fix v :: world and pd
  assume inactive: "\<forall>b\<in>set (alerts v). alert_id b = alert_id rule \<longrightarrow> \<not> isActive b"
  then have others: "\<forall>a\<in>set (filter isActive (alerts v)). alert_id a \<noteq> alert_id rule"
    by auto
  show "firings (alert_id rule) (checkAlerts pd v) = firings (alert_id rule) v"
    using checkAlerts_loop_other [OF others, of pd v]
    by (simp add: checkAlerts_def logger_error_def firings_def)
  show "mails_for (alert_id rule) (checkAlerts pd v) = mails_for (alert_id rule) v"
    using checkAlerts_loop_other [OF others, of pd v]
    by (simp add: checkAlerts_def logger_error_def mails_for_def)
  show "\<forall>b\<in>set (alerts (checkAlerts pd v)). alert_id b = alert_id rule \<longrightarrow> \<not> isActive b"
    using checkAlerts_loop_keeps_inactive [OF inactive, of "filter isActive (alerts v)" pd] inactive
    by (simp add: checkAlerts_def logger_error_def)
qed

lemma find_price_btc:
  "find_price btc_rule [btc_snapshot] = Some btc_snapshot"
  by (simp add: find_price_def btc_rule_def btc_snapshot_def toUpperCase_def upper_char_def)

lemma evaluateAlert_btc:
  "evaluateAlert btc_rule btc_snapshot"
  by (simp add: evaluateAlert_def btc_rule_def btc_snapshot_def)

lemma find_price_eth:
  "find_price eth_rule [btc_snapshot] = None"
  by (simp add: find_price_def eth_rule_def btc_snapshot_def toUpperCase_def upper_char_def)

lemma btc_rule_fields:
  "alert_id btc_rule = 1" "userId btc_rule = ''u1''" "isActive btc_rule"
  "alert_id eth_rule = 2" "\<not> isActive eth_rule"
  by (simp_all add: btc_rule_def eth_rule_def)

lemma btc_snapshot_fields:
  "current_price btc_snapshot = 61000" "price_change_percentage_24h btc_snapshot = 2"
  by (simp_all add: btc_snapshot_def)

text \<open>
  C5. The claim: the push, the email and the deactivation are isolated from one another's
  failures; if the email dispatch raises, the rule is still deactivated. The code runs the
  three in one \<^verbatim>\<open>try\<close> block. Evaluated on the rule on Bitcoin above 60000, the snapshot at
  61000 and the world whose mail transport throws: the push is emitted, the email error is
  logged twice (by the mail service and by the \<^verbatim>\<open>catch\<close> of \<^verbatim>\<open>triggerAlert\<close>), and the
  store is unchanged, the rule still active.
\<close>

theorem email_failure_leaves_rule_active:
  "triggerAlert btc_rule btc_snapshot mail_down_world
     = mail_down_world\<lparr>emitted := [AlertTriggered btc_rule 61000 2],
         logged := [''Error sending alert email'', ''Failed to trigger alert'']\<rparr>
   \<and> alerts (triggerAlert btc_rule btc_snapshot mail_down_world) = [btc_rule, eth_rule]
   \<and> isActive btc_rule"
  by (simp add: triggerAlert_def triggerAlert_try_def User_findById_def sendAlert_def
      sendAlertEmail_def logger_error_def mail_down_world_def alert_world_def quiet_world_def
      btc_rule_fields btc_snapshot_fields alice_def)

lemma alert_world_fields:
  "alerts alert_world = [btc_rule, eth_rule]" "users alert_world ''u1'' = Some alice"
  "io alert_world" "fails alert_world = (\<lambda>x. False)" "emitted alert_world = []"
  "outbox alert_world = []"
  by (simp_all add: alert_world_def quiet_world_def)

lemma checkAlerts_alert_world:
  "checkAlerts [btc_snapshot] alert_world
     = alert_world\<lparr>emitted := [AlertTriggered btc_rule 61000 2],
         outbox := [(''alice@example.org'', ''Alice'', btc_rule, 61000)],
         alerts := [btc_rule\<lparr>isActive := False\<rparr>, eth_rule]\<rparr>"
  by (simp add: checkAlerts_def checkAlerts_body_def find_price_btc find_price_eth
      evaluateAlert_btc triggerAlert_def triggerAlert_try_def User_findById_def sendAlert_def
      sendAlertEmail_def updateAlert_deactivate deactivate_def alert_world_fields
      btc_rule_fields btc_snapshot_fields alice_def)

text \<open>In the store with the two rules and the Bitcoin snapshot at 61000, the rule on
  Bitcoin above 60000 fires once, is stored inactive, and the next tick on the same prices
  adds no second event.\<close>

theorem checkAlerts_one_shot_witness:
  "distinct (map alert_id (alerts alert_world)) \<and> btc_rule \<in> set (alerts alert_world)
   \<and> isActive btc_rule \<and> find_price btc_rule [btc_snapshot] = Some btc_snapshot
   \<and> evaluateAlert btc_rule btc_snapshot
   \<and> firings 1 (checkAlerts [btc_snapshot] alert_world) = [AlertTriggered btc_rule 61000 2]
   \<and> alerts (checkAlerts [btc_snapshot] alert_world) = [btc_rule\<lparr>isActive := False\<rparr>, eth_rule]
   \<and> firings 1 (checkAlerts [btc_snapshot] (checkAlerts [btc_snapshot] alert_world))
       = [AlertTriggered btc_rule 61000 2]"
proof -
  have h: "distinct (map alert_id (alerts alert_world))" "btc_rule \<in> set (alerts alert_world)"
    "\<not> fails alert_world AlertFind" "\<not> fails alert_world UserFindById"
    "io alert_world \<longrightarrow> \<not> fails alert_world SocketEmit"
    "(\<exists>u. users alert_world (userId btc_rule) = Some u \<and> emailNotifications u)
      \<longrightarrow> \<not> fails alert_world SendMail"
    "\<not> fails alert_world AlertFindOneAndUpdate"
    by (simp_all add: alert_world_fields btc_rule_fields)
  have first: "firings 1 (checkAlerts [btc_snapshot] alert_world)
      = [AlertTriggered btc_rule 61000 2]"
    by (simp add: checkAlerts_alert_world firings_def btc_rule_fields)
  have store: "alerts (checkAlerts [btc_snapshot] alert_world)
      = [btc_rule\<lparr>isActive := False\<rparr>, eth_rule]"
    by (simp add: checkAlerts_alert_world)
  from checkAlerts_one_shot [OF h(1,2) btc_rule_fields(3) find_price_btc evaluateAlert_btc h(3-7)]
  have "firings (alert_id btc_rule) (checkAlerts [btc_snapshot]
        (checkAlerts [btc_snapshot] alert_world))
      = firings (alert_id btc_rule) (checkAlerts [btc_snapshot] alert_world)"
    by blast
  with first have "firings 1 (checkAlerts [btc_snapshot] (checkAlerts [btc_snapshot] alert_world))
      = [AlertTriggered btc_rule 61000 2]"
    by (simp add: btc_rule_fields)
  with h(1,2) first store find_price_btc evaluateAlert_btc btc_rule_fields(3)
  show ?thesis by simp
qed

text \<open>The claim as written (every rule that fires has its flag set to false, and fires
  once) fails where the store update itself throws: the push is emitted and the email
  sent, the update's error is caught and logged, the rule stays active and fires again on
  the next tick.\<close>

lemma checkAlerts_store_down:
  "alerts v = [btc_rule, eth_rule] \<Longrightarrow> users v ''u1'' = Some alice \<Longrightarrow> io v
   \<Longrightarrow> fails v = (\<lambda>x. x = AlertFindOneAndUpdate)
   \<Longrightarrow> checkAlerts [btc_snapshot] v
     = v\<lparr>emitted := emitted v @ [AlertTriggered btc_rule 61000 2],
         outbox := outbox v @ [(''alice@example.org'', ''Alice'', btc_rule, 61000)],
         logged := logged v @ [''Failed to update alert'', ''Failed to trigger alert'']\<rparr>"
  by (simp add: checkAlerts_def checkAlerts_body_def find_price_btc find_price_eth
      evaluateAlert_btc triggerAlert_def triggerAlert_try_def User_findById_def sendAlert_def
      sendAlertEmail_def updateAlert_def logger_error_def btc_rule_fields btc_snapshot_fields
      alice_def)

lemma store_down_world_fields:
  "alerts store_down_world = [btc_rule, eth_rule]" "users store_down_world ''u1'' = Some alice"
  "io store_down_world" "fails store_down_world = (\<lambda>x. x = AlertFindOneAndUpdate)"
  "emitted store_down_world = []"
  by (simp_all add: store_down_world_def alert_world_def quiet_world_def)

theorem store_update_failure_counterexample:
  "isActive btc_rule \<and> evaluateAlert btc_rule btc_snapshot
   \<and> fails store_down_world AlertFindOneAndUpdate
   \<and> alerts (checkAlerts [btc_snapshot] store_down_world) = [btc_rule, eth_rule]
   \<and> firings 1 (checkAlerts [btc_snapshot] store_down_world)
       = [AlertTriggered btc_rule 61000 2]
   \<and> firings 1 (checkAlerts [btc_snapshot] (checkAlerts [btc_snapshot] store_down_world))
       = [AlertTriggered btc_rule 61000 2, AlertTriggered btc_rule 61000 2]"
proof -
  let ?v = "checkAlerts [btc_snapshot] store_down_world"
  have one: "?v = store_down_world\<lparr>emitted := emitted store_down_world
        @ [AlertTriggered btc_rule 61000 2],
      outbox := outbox store_down_world
        @ [(''alice@example.org'', ''Alice'', btc_rule, 61000)],
      logged := logged store_down_world
        @ [''Failed to update alert'', ''Failed to trigger alert'']\<rparr>"
    by (rule checkAlerts_store_down) (simp_all add: store_down_world_fields)
  have two: "checkAlerts [btc_snapshot] ?v = ?v\<lparr>emitted := emitted ?v
        @ [AlertTriggered btc_rule 61000 2],
      outbox := outbox ?v @ [(''alice@example.org'', ''Alice'', btc_rule, 61000)],
      logged := logged ?v @ [''Failed to update alert'', ''Failed to trigger alert'']\<rparr>"
    by (rule checkAlerts_store_down) (simp_all add: one store_down_world_fields)
  have e1: "emitted ?v = [AlertTriggered btc_rule 61000 2]"
    by (simp add: one store_down_world_fields)
  have e2: "emitted (checkAlerts [btc_snapshot] ?v)
      = [AlertTriggered btc_rule 61000 2, AlertTriggered btc_rule 61000 2]"
    by (subst two) (simp add: e1)
  have a1: "alerts ?v = [btc_rule, eth_rule]"
    by (simp add: one store_down_world_fields)
  show ?thesis
    by (simp add: firings_def e1 e2 a1 btc_rule_fields evaluateAlert_btc
        store_down_world_fields)
qed

lemma storePriceHistory_emitted:
  "emitted (storePriceHistory prices w) = emitted w"
  by (simp add: storePriceHistory_def logger_error_def)

text \<open>
  C9. In every tick whose fetch returns a snapshot list (with the Socket.IO server up and
  its emit not throwing), the tick returns normally and the events it emits start with the
  broadcast of that list, globally and per symbol; every event after it is an
  \<^verbatim>\<open>alert-triggered\<close> event of the alert check. This holds for every alert store and
  for every failure of the alert query, the user lookup, the email, the store update and
  the history insert: the alert check runs after the broadcast and cannot suppress it.
\<close>

theorem broadcast_precedes_alert_evaluation:
  assumes "getCurrentPrices None w = Some (Inr prices, w1)" and "io w"
    and "\<not> fails w SocketEmit"
  shows "\<exists>rest w'. tick w = Some (Inr (), w')
    \<and> emitted w' = emitted w @ PriceUpdate prices # symbol_events prices @ rest
    \<and> (\<forall>e\<in>set rest. \<exists>b x y. e = AlertTriggered b x y)"
proof -
  from getCurrentPrices_frame [OF assms(1)] assms(2,3)
  have f1: "io w1" "\<not> fails w1 SocketEmit" "emitted w1 = emitted w" by simp_all
  let ?w2 = "w1\<lparr>emitted := emitted w1 @ PriceUpdate prices # symbol_events prices\<rparr>"
  have b: "broadcastPriceUpdate prices w1 = (Inr (), ?w2)"
    using f1 by (simp add: broadcastPriceUpdate_def)
  let ?w3 = "checkAlerts prices ?w2"
  obtain rest where rest: "emitted ?w3 = emitted ?w2 @ rest"
    "\<forall>e\<in>set rest. \<exists>b x y. e = AlertTriggered b x y"
    using checkAlerts_emitted [of prices ?w2] by blast
  let ?w4 = "if (now ?w3 div 1000) mod 60 = 0 then storePriceHistory prices ?w3 else ?w3"
  have t: "tick w = Some (Inr (), ?w4)"
    using assms(1) b by (simp add: tick_def tick_try_def Let_def)
  have "emitted ?w4 = emitted w @ PriceUpdate prices # symbol_events prices @ rest"
    using rest(1) f1(3) by (simp add: storePriceHistory_emitted)
  with t rest(2) show ?thesis by blast
qed

theorem broadcast_precedes_alert_evaluation_witness:
  "io serving_world \<and> \<not> fails serving_world SocketEmit \<and> fails serving_world AlertFind
   \<and> map_option fst (getCurrentPrices None serving_world) = Some (Inr [btc_snapshot])
   \<and> (\<exists>rest w'. tick serving_world = Some (Inr (), w')
        \<and> emitted w' = emitted serving_world
            @ PriceUpdate [btc_snapshot] # symbol_events [btc_snapshot] @ rest)"
proof -
  have h: "io serving_world" "\<not> fails serving_world SocketEmit" "fails serving_world AlertFind"
    by (simp_all add: serving_world_def alert_world_def quiet_world_def)
  have "api_request (markets_request None) serving_world
      = Some (Inr [btc_snapshot], request_interceptor serving_world)"
    by (rule api_request_Ok) (simp add: serving_world_def)
  moreover have "cache_get (cacheKey None) serving_world = (None, serving_world)"
    by (simp add: cache_get_def serving_world_def alert_world_def quiet_world_def)
  ultimately have g: "getCurrentPrices None serving_world
      = Some (Inr [btc_snapshot],
          cache_set (cacheKey None) [btc_snapshot] (Some 30) (request_interceptor serving_world))"
    by (simp add: getCurrentPrices_def)
  from broadcast_precedes_alert_evaluation [OF g h(1,2)]
  have "\<exists>rest w'. tick serving_world = Some (Inr (), w')
        \<and> emitted w' = emitted serving_world
            @ PriceUpdate [btc_snapshot] # symbol_events [btc_snapshot] @ rest"
    by blast
  with h g show ?thesis by simp
qed

section \<open>Scheduler and timer: properties\<close>






















end
